theory Spec2Isabelle
  imports Complex_Main "HOL-Library.Multiset"
begin

section \<open>External collaborators\<close>

text \<open>
  The tutor bot delegates text completion, embedding and nearest-neighbour search to
  libraries. Every call into them can raise; an exception is the left summand of a sum,
  carrying the text that \<^verbatim>\<open>str(e)\<close> would give.
\<close>

datatype error = ServiceError string

fun str_error :: "error \<Rightarrow> string" where
  "str_error (ServiceError msg) = msg"

type_synonym vector = "real list"

text \<open>
  The services a request runs against: \<open>llm\<close> is the completion service
  (\<^verbatim>\<open>Ollama(model=..., temperature=0.7)\<close>, called on a prompt), \<open>embed\<close> the
  embedding service (\<^verbatim>\<open>OllamaEmbeddings\<close>), \<open>distance\<close> the metric of the
  similarity search, and \<open>render\<close> the way the conversation window prints its exchanges
  when it is read through \<^verbatim>\<open>.buffer\<close>. All four are parameters of the model.
\<close>

record services =
  llm :: "string \<Rightarrow> error + string"
  embed :: "string \<Rightarrow> error + vector"
  distance :: "vector \<Rightarrow> vector \<Rightarrow> real"
  render :: "(string \<times> string) list \<Rightarrow> string"

subsection \<open>The vector store\<close>

datatype scalar = Str string | Num int

record document =
  page_content :: string
  metadata :: "string \<rightharpoonup> scalar"

type_synonym collection = "(document \<times> vector) list"

text \<open>
  Modelled from the spec: the vector store (\<^verbatim>\<open>langchain.vectorstores.Chroma\<close>) is a
  library and not part of the repository. Following sections 2 and 4.1 of the
  specification, writing embeds each text once and persists it with its metadata; a
  search embeds the query, keeps the records whose metadata agree with the filter on
  every key of the filter, and returns the \<open>k\<close> nearest of them, nearest first. Records
  at the same distance keep their order of insertion. \<open>k\<close> is a count, so a natural
  number.
\<close>

fun embed_documents :: "services \<Rightarrow> string list \<Rightarrow> error + vector list" where
  "embed_documents env [] = Inr []"
| "embed_documents env (t # ts) =
     (case embed env t of
        Inl e \<Rightarrow> Inl e
      | Inr v \<Rightarrow>
          (case embed_documents env ts of
             Inl e \<Rightarrow> Inl e
           | Inr vs \<Rightarrow> Inr (v # vs)))"

definition add_texts ::
  "services \<Rightarrow> collection \<Rightarrow> string list \<Rightarrow> (string \<rightharpoonup> scalar) list \<Rightarrow> error + collection" where
  "add_texts env coll texts metadatas =
     (case embed_documents env texts of
        Inl e \<Rightarrow> Inl e
      | Inr vs \<Rightarrow>
          Inr (coll @ zip (map2 (\<lambda>t m. \<lparr>page_content = t, metadata = m\<rparr>) texts metadatas) vs))"

definition matches :: "(string \<times> scalar) list \<Rightarrow> (string \<rightharpoonup> scalar) \<Rightarrow> bool" where
  "matches flt md = list_all (\<lambda>(key, v). md key = Some v) flt"

definition candidates :: "(string \<times> scalar) list \<Rightarrow> collection \<Rightarrow> collection" where
  "candidates flt coll = filter (\<lambda>(d, v). matches flt (metadata d)) coll"

definition nearest :: "services \<Rightarrow> vector \<Rightarrow> collection \<Rightarrow> collection" where
  "nearest env qv coll = sort_key (\<lambda>(d, v). distance env qv v) coll"

definition similarity_search ::
  "services \<Rightarrow> collection \<Rightarrow> string \<Rightarrow> nat \<Rightarrow> (string \<times> scalar) list \<Rightarrow> error + document list" where
  "similarity_search env coll query k flt =
     (case embed env query of
        Inl e \<Rightarrow> Inl e
      | Inr qv \<Rightarrow> Inr (map fst (take k (nearest env qv (candidates flt coll)))))"

section \<open>The interaction memory store (backend/memory/vector\_store.py)\<close>

record MemoryManager =
  vectorstore :: collection

text \<open>
  \<^verbatim>\<open>metadatas=[{"user_id": user_id, **metadata}]\<close>: the dictionary display puts
  \<open>user_id\<close> first and then unpacks the caller's metadata over it, so a key of the
  caller's metadata replaces an earlier one of the same name (\<open>++\<close> on maps).
\<close>

definition add_user_interaction ::
  "services \<Rightarrow> MemoryManager \<Rightarrow> string \<Rightarrow> string \<Rightarrow> (string \<rightharpoonup> scalar) \<Rightarrow> error + MemoryManager" where
  "add_user_interaction env self user_id interaction md =
     (case add_texts env (vectorstore self) [interaction] [[''user_id'' \<mapsto> Str user_id] ++ md] of
        Inl e \<Rightarrow> Inl e
      | Inr coll \<Rightarrow> Inr (self\<lparr>vectorstore := coll\<rparr>))"

text \<open>
  \<^verbatim>\<open>get_user_context(user_id, query, k=5)\<close>: a caller that leaves \<open>k\<close> out passes 5.
\<close>

definition get_user_context ::
  "services \<Rightarrow> MemoryManager \<Rightarrow> string \<Rightarrow> string \<Rightarrow> nat \<Rightarrow> error + string list" where
  "get_user_context env self user_id query k =
     (case similarity_search env (vectorstore self) query k [(''user_id'', Str user_id)] of
        Inl e \<Rightarrow> Inl e
      | Inr results \<Rightarrow> Inr (map page_content results))"

definition add_lesson_content ::
  "services \<Rightarrow> MemoryManager \<Rightarrow> string \<Rightarrow> string \<Rightarrow> error + MemoryManager" where
  "add_lesson_content env self lesson_id content =
     (case add_texts env (vectorstore self) [content]
             [[''type'' \<mapsto> Str ''lesson'', ''lesson_id'' \<mapsto> Str lesson_id]] of
        Inl e \<Rightarrow> Inl e
      | Inr coll \<Rightarrow> Inr (self\<lparr>vectorstore := coll\<rparr>))"

section \<open>The tutor session component (backend/agents/tutor\_agent.py)\<close>

subsection \<open>Text formatting\<close>

text \<open>\<^verbatim>\<open>str\<close> of a Python integer, as an f-string or \<^verbatim>\<open>format\<close> prints it.\<close>

definition digit_char :: "nat \<Rightarrow> char" where
  "digit_char d = ''0123456789'' ! d"

fun str_nat :: "nat \<Rightarrow> string" where
  "str_nat n = (if n < 10 then [digit_char n] else str_nat (n div 10) @ [digit_char (n mod 10)])"

declare str_nat.simps [simp del]

definition str_int :: "int \<Rightarrow> string" where
  "str_int i = (if i < 0 then ''-'' @ str_nat (nat (- i)) else str_nat (nat i))"

text \<open>\<^verbatim>\<open>sep.join(xs)\<close>.\<close>

fun join :: "string \<Rightarrow> string list \<Rightarrow> string" where
  "join sep [] = []"
| "join sep [x] = x"
| "join sep (x # y # ys) = x @ sep @ join sep (y # ys)"

subsection \<open>The conversation window\<close>

text \<open>
  Modelled from the spec: the window (\<^verbatim>\<open>ConversationBufferWindowMemory(k=10)\<close>) is a
  library class and not part of the repository. Following section 4.2 of the
  specification it holds exchanges in order of arrival, and reading it gives the most
  recent \<open>window_k\<close> of them; saving an exchange (\<^verbatim>\<open>save_context\<close>) puts it at the
  end. The agent constructs the window and reads its buffer; it never saves into it.
\<close>

record ConversationBufferWindowMemory =
  window_k :: nat
  chat_memory :: "(string \<times> string) list"

definition window :: "ConversationBufferWindowMemory \<Rightarrow> (string \<times> string) list" where
  "window m = drop (length (chat_memory m) - window_k m) (chat_memory m)"

definition buffer :: "services \<Rightarrow> ConversationBufferWindowMemory \<Rightarrow> string" where
  "buffer env m = render env (window m)"


subsection \<open>The agent\<close>

record TutorAgent =
  memory_manager :: MemoryManager
  conversation_memory :: ConversationBufferWindowMemory

definition TutorAgent_init :: "MemoryManager \<Rightarrow> TutorAgent" where
  "TutorAgent_init mm =
     \<lparr>memory_manager = mm,
      conversation_memory = \<lparr>window_k = 10, chat_memory = []\<rparr>\<rparr>"

text \<open>\<^verbatim>\<open>self.tutor_prompt.format(context=..., user_level=..., question=..., history=...)\<close>.\<close>

definition tutor_prompt_format :: "string \<Rightarrow> int \<Rightarrow> string \<Rightarrow> string \<Rightarrow> string" where
  "tutor_prompt_format context_str user_level question history =
     ''You are an expert C programming tutor. You'' @ [CHR 0x27] @
     ''re patient, encouraging, and adapt your teaching style to the student'' @ [CHR 0x27] @
     ''s level.\<newline>\<newline>Student Level: '' @ str_int user_level @
     ''\<newline>Previous Context: '' @ context_str @
     ''\<newline>Conversation History: '' @ history @
     ''\<newline>\<newline>Student Question: '' @ question @
     ''\<newline>\<newline>Guidelines:\<newline>- Provide clear, step-by-step explanations\<newline>- Use appropriate examples for the student'' @ [CHR 0x27] @
     ''s level\<newline>- Encourage questions and experimentation\<newline>- Point out common mistakes and how to avoid them\<newline>- If the student seems stuck, break down the problem into smaller parts\<newline>\<newline>Response:''"

text \<open>
  The first two statements of \<^verbatim>\<open>generate_response\<close> on their own: the prompt that the
  call builds for a user, a question and a level, before anything is sent.
\<close>

definition formatted_prompt ::
  "services \<Rightarrow> TutorAgent \<Rightarrow> string \<Rightarrow> string \<Rightarrow> int \<Rightarrow> error + string" where
  "formatted_prompt env self user_id question user_level =
     (case get_user_context env (memory_manager self) user_id question 5 of
        Inl e \<Rightarrow> Inl e
      | Inr ctxt \<Rightarrow>
          Inr (tutor_prompt_format (join ''\<newline>'' ctxt) user_level question
                 (buffer env (conversation_memory self))))"

text \<open>
  \<^verbatim>\<open>generate_response\<close>: retrieve the context, format the prompt, call the completion
  service, store the interaction, return the response. An exception of any of the three
  calls leaves the function at once. The conversation memory is read and never written.
\<close>

definition generate_response ::
  "services \<Rightarrow> TutorAgent \<Rightarrow> string \<Rightarrow> string \<Rightarrow> int \<Rightarrow> error + (string \<times> TutorAgent)" where
  "generate_response env self user_id question user_level =
     (case get_user_context env (memory_manager self) user_id question 5 of
        Inl e \<Rightarrow> Inl e
      | Inr ctxt \<Rightarrow>
          (let context_str = join ''\<newline>'' ctxt;
               formatted_prompt =
                 tutor_prompt_format context_str user_level question
                   (buffer env (conversation_memory self))
           in case llm env formatted_prompt of
                Inl e \<Rightarrow> Inl e
              | Inr response \<Rightarrow>
                  (case add_user_interaction env (memory_manager self) user_id
                          (''Q: '' @ question @ ''\<newline>A: '' @ response)
                          [''type'' \<mapsto> Str ''qa'', ''level'' \<mapsto> Num user_level] of
                     Inl e \<Rightarrow> Inl e
                   | Inr mm \<Rightarrow> Inr (response, self\<lparr>memory_manager := mm\<rparr>))))"

subsection \<open>Quizzes\<close>

record QuizQuestion =
  question_id :: string
  question :: string
  options :: "string list"
  correct_answer :: int
  explanation :: string
  difficulty :: int

definition quiz_prompt :: "string \<Rightarrow> int \<Rightarrow> int \<Rightarrow> string" where
  "quiz_prompt topic difficulty_level num_questions =
     ''Generate '' @ str_int num_questions @ '' multiple choice questions about '' @ topic @
     '' in C programming.\<newline>Difficulty level: '' @ str_int difficulty_level @
     ''/10\<newline>\<newline>Format each question as:\<newline>Q: [question]\<newline>A) [option 1]\<newline>B) [option 2] \<newline>C) [option 3]\<newline>D) [option 4]\<newline>Correct: [A/B/C/D]\<newline>Explanation: [brief explanation]\<newline>\<newline>---''"

text \<open>
  \<^verbatim>\<open>_parse_quiz_response\<close>: the body creates the empty list \<^verbatim>\<open>questions\<close> and
  returns it; the parsing between the two lines is a comment.
\<close>

definition parse_quiz_response :: "string \<Rightarrow> QuizQuestion list" where
  "parse_quiz_response response = (let questions = [] in questions)"

definition generate_quiz ::
  "services \<Rightarrow> TutorAgent \<Rightarrow> string \<Rightarrow> int \<Rightarrow> int \<Rightarrow> error + QuizQuestion list" where
  "generate_quiz env self topic difficulty_level num_questions =
     (case llm env (quiz_prompt topic difficulty_level num_questions) of
        Inl e \<Rightarrow> Inl e
      | Inr response \<Rightarrow> Inr (parse_quiz_response response))"

section \<open>The API layer (backend/api/main.py)\<close>

record UserProfile =
  user_id :: string
  name :: string
  current_level :: int
  completed_lessons :: "string list"
  quiz_scores :: "string \<rightharpoonup> real"
  learning_preferences :: "string \<rightharpoonup> scalar"
  created_at :: nat
  last_active :: nat

record ChatMessage =
  message :: string
  user_id :: string
  context_opt :: "string option"

text \<open>
  The third field of \<^verbatim>\<open>ChatMessage\<close> is \<^verbatim>\<open>context\<close> in the source; no handler reads it.
  A handler either returns its body or raises \<^verbatim>\<open>HTTPException(status_code, detail)\<close>.
\<close>

datatype 'a http = Ok 'a | HTTPException nat string

text \<open>
  The module creates one \<^verbatim>\<open>MemoryManager\<close>, one \<^verbatim>\<open>TutorAgent\<close> over it and one
  user table when it is loaded; every request of every user runs on these.
\<close>

record app =
  tutor_agent :: TutorAgent
  users_db :: "string \<rightharpoonup> UserProfile"

definition app_init :: "collection \<Rightarrow> app" where
  "app_init persisted =
     \<lparr>tutor_agent = TutorAgent_init \<lparr>vectorstore = persisted\<rparr>, users_db = Map.empty\<rparr>"

text \<open>
  \<^verbatim>\<open>users_db.get(message.user_id, {}).get("current_level", 1)\<close>: a stored profile always
  has its level; an unknown user gives the empty dictionary and so the default 1.
\<close>

definition chat :: "services \<Rightarrow> app \<Rightarrow> ChatMessage \<Rightarrow> string http \<times> app" where
  "chat env st msg =
     (let user_level =
            (case users_db st (ChatMessage.user_id msg) of
               None \<Rightarrow> 1
             | Some profile \<Rightarrow> current_level profile)
      in case generate_response env (tutor_agent st) (ChatMessage.user_id msg) (message msg) user_level of
           Inr (response, agent) \<Rightarrow> (Ok response, st\<lparr>tutor_agent := agent\<rparr>)
         | Inl e \<Rightarrow> (HTTPException 500 (str_error e), st))"

text \<open>
  \<^verbatim>\<open>create_user\<close>: the identifier (\<^verbatim>\<open>uuid.uuid4()\<close>) and the two readings of the
  clock (\<^verbatim>\<open>datetime.now()\<close> for \<open>created_at\<close>, then again for \<open>last_active\<close>) are
  inputs.
\<close>

definition create_user :: "app \<Rightarrow> string \<Rightarrow> string \<Rightarrow> nat \<Rightarrow> nat \<Rightarrow> string \<times> app" where
  "create_user st uid nm now_created now_active =
     (let user = \<lparr>UserProfile.user_id = uid, name = nm, current_level = 1,
                  completed_lessons = [], quiz_scores = Map.empty,
                  learning_preferences = Map.empty,
                  created_at = now_created, last_active = now_active\<rparr>
      in (uid, st\<lparr>users_db := (users_db st)(uid \<mapsto> user)\<rparr>))"

definition get_user :: "app \<Rightarrow> string \<Rightarrow> UserProfile http" where
  "get_user st uid =
     (case users_db st uid of
        None \<Rightarrow> HTTPException 404 ''User not found''
      | Some profile \<Rightarrow> Ok profile)"

text \<open>
  \<^verbatim>\<open>async def generate_quiz(topic: str, difficulty: int = 5)\<close>: of the query
  parameters of the request the handler declares \<open>difficulty\<close> alone, and it calls
  \<^verbatim>\<open>tutor_agent.generate_quiz(topic, difficulty)\<close>, so the agent's third parameter takes
  its default 5. \<open>query\<close> is the query string of the request, already read as integers.
\<close>

definition generate_quiz_endpoint ::
  "services \<Rightarrow> app \<Rightarrow> string \<Rightarrow> (string \<rightharpoonup> int) \<Rightarrow> QuizQuestion list http" where
  "generate_quiz_endpoint env st topic query =
     (let difficulty_level = (case query ''difficulty'' of None \<Rightarrow> 5 | Some d \<Rightarrow> d)
      in case generate_quiz env (tutor_agent st) topic difficulty_level 5 of
           Inr quiz \<Rightarrow> Ok quiz
         | Inl e \<Rightarrow> HTTPException 500 (str_error e))"

section \<open>Inputs of the properties\<close>

text \<open>A block of quiz text has a \<^verbatim>\<open>Correct:\<close> line when one of its lines starts so.\<close>

fun split_on :: "char \<Rightarrow> string \<Rightarrow> string list" where
  "split_on c [] = [[]]"
| "split_on c (x # xs) =
     (if x = c then [] # split_on c xs
      else (case split_on c xs of [] \<Rightarrow> [[x]] | l # ls \<Rightarrow> (x # l) # ls))"

definition has_correct_line :: "string \<Rightarrow> bool" where
  "has_correct_line block =
     list_ex (\<lambda>l. take 8 l = ''Correct:'') (split_on CHR ''\<newline>'' block)"

text \<open>
  Concrete services for the examples: a completion service with one fixed answer, an
  embedding that maps a text to its length, and the absolute difference as distance.
  \<open>echo_services\<close> has a completion service that fails with the prompt it was given
  as its message, which makes the prompt visible in the reply of the API.
\<close>

definition example_services :: services where
  "example_services =
     \<lparr>llm = (\<lambda>prompt. Inr ''A pointer holds an address.''),
      embed = (\<lambda>t. Inr [real (length t)]),
      distance = (\<lambda>a b. \<bar>hd a - hd b\<bar>),
      render = (\<lambda>xs. concat (map (\<lambda>(h, a). ''Human: '' @ h @ ''\<newline>AI: '' @ a @ ''\<newline>'') xs))\<rparr>"

definition echo_services :: services where
  "echo_services =
     \<lparr>llm = (\<lambda>prompt. Inl (ServiceError prompt)),
      embed = (\<lambda>t. Inr [real (length t)]),
      distance = (\<lambda>a b. \<bar>hd a - hd b\<bar>),
      render = (\<lambda>xs. [])\<rparr>"



text \<open>A store holding two records of alice, one of bob and one lesson.\<close>

definition example_store :: collection where
  "example_store =
     [(\<lparr>page_content = ''Q: What is malloc?\<newline>A: It allocates heap memory.'',
        metadata = [''user_id'' \<mapsto> Str ''alice'', ''type'' \<mapsto> Str ''qa'', ''level'' \<mapsto> Num 2]\<rparr>, [20]),
      (\<lparr>page_content = ''Q: What is a struct?\<newline>A: A record type.'',
        metadata = [''user_id'' \<mapsto> Str ''bob'', ''type'' \<mapsto> Str ''qa'', ''level'' \<mapsto> Num 1]\<rparr>, [9]),
      (\<lparr>page_content = ''Q: What is a pointer?\<newline>A: An address.'',
        metadata = [''user_id'' \<mapsto> Str ''alice'', ''type'' \<mapsto> Str ''qa'', ''level'' \<mapsto> Num 2]\<rparr>, [10]),
      (\<lparr>page_content = ''Lesson 1: variables and types'',
        metadata = [''type'' \<mapsto> Str ''lesson'', ''lesson_id'' \<mapsto> Str ''L1'']\<rparr>, [8])]"

section \<open>Properties of the memory store\<close>

lemma add_texts_one:
  "embed env t = Inr v \<Longrightarrow>
   add_texts env coll [t] [m] = Inr (coll @ [(\<lparr>page_content = t, metadata = m\<rparr>, v)])"
  by (simp add: add_texts_def)

lemma add_texts_one_err:
  "embed env t = Inl e \<Longrightarrow> add_texts env coll [t] [m] = Inl e"
  by (simp add: add_texts_def)

lemma add_user_interaction_ok:
  assumes "add_user_interaction env self uid t md = Inr self'"
  shows "\<exists>v. embed env t = Inr v \<and>
           vectorstore self' = vectorstore self @
             [(\<lparr>page_content = t, metadata = [''user_id'' \<mapsto> Str uid] ++ md\<rparr>, v)]"
proof (cases "embed env t")
  case (Inl e)
  with assms show ?thesis by (simp add: add_user_interaction_def add_texts_one_err)
next
  case (Inr v)
  with assms show ?thesis by (auto simp: add_user_interaction_def add_texts_one)
qed

lemma get_user_context_ok:
  "embed env query = Inr qv \<Longrightarrow>
   get_user_context env self uid query k =
     Inr (map (page_content \<circ> fst)
            (take k (nearest env qv (candidates [(''user_id'', Str uid)] (vectorstore self)))))"
  by (simp add: get_user_context_def similarity_search_def)

lemma get_user_context_err:
  "embed env query = Inl e \<Longrightarrow> get_user_context env self uid query k = Inl e"
  by (simp add: get_user_context_def similarity_search_def)

lemma candidates_iff:
  "x \<in> set (candidates flt coll) \<longleftrightarrow> x \<in> set coll \<and> matches flt (metadata (fst x))"
  by (auto simp: candidates_def)

lemma matches_user_id:
  "matches [(''user_id'', Str uid)] md \<longleftrightarrow> md ''user_id'' = Some (Str uid)"
  by (simp add: matches_def)

text \<open>
  On the stored records the filter is exact: whatever is retrieved for a user is the
  text of a record whose stored \<open>user_id\<close> is that user.
\<close>

lemma retrieved_in_scope:
  assumes "get_user_context env self uid query k = Inr ts" and "t \<in> set ts"
  shows "\<exists>d v. (d, v) \<in> set (vectorstore self) \<and> page_content d = t
           \<and> metadata d ''user_id'' = Some (Str uid)"
proof (cases "embed env query")
  case (Inl e)
  with assms show ?thesis by (simp add: get_user_context_err)
next
  case (Inr qv)
  let ?c = "candidates [(''user_id'', Str uid)] (vectorstore self)"
  from Inr assms obtain x where x: "x \<in> set (take k (nearest env qv ?c))"
     and t: "t = page_content (fst x)"
    by (auto simp: get_user_context_ok)
  from x have "x \<in> set ?c"
    by (auto dest!: in_set_takeD simp: nearest_def)
  then have "x \<in> set (vectorstore self)" "metadata (fst x) ''user_id'' = Some (Str uid)"
    by (simp_all add: candidates_iff matches_user_id)
  with t show ?thesis by (cases x) auto
qed

text \<open>
  The stored \<open>user_id\<close> is the one the interaction was recorded for as long as the
  caller's metadata has no \<open>user_id\<close> key of its own.
\<close>

lemma add_user_interaction_scope:
  assumes "add_user_interaction env self uid t md = Inr self'" and "md ''user_id'' = None"
  shows "metadata (fst (last (vectorstore self'))) ''user_id'' = Some (Str uid)"
  using add_user_interaction_ok [OF assms(1)] assms(2) by (auto simp: map_add_def)

text \<open>
  C1. Retrieval for a scope returns only texts of interactions that were recorded with
  exactly that scope. The code breaks this at \<^verbatim>\<open>add_user_interaction\<close>: the metadata
  of the caller is unpacked after the \<open>user_id\<close> entry, so an interaction recorded for
  bob with metadata \<^verbatim>\<open>{"user_id": "alice"}\<close> is stored under alice, is returned to
  alice and is not returned to bob.
\<close>

theorem scope_overridden_by_metadata:
  "(case add_user_interaction example_services \<lparr>vectorstore = []\<rparr> ''bob'' ''the secret of bob''
           [''user_id'' \<mapsto> Str ''alice''] of
      Inl e \<Rightarrow> False
    | Inr mm \<Rightarrow>
        get_user_context example_services mm ''alice'' ''pointers'' 5 = Inr [''the secret of bob'']
      \<and> get_user_context example_services mm ''bob'' ''pointers'' 5 = Inr [])"
  by (simp add: add_user_interaction_def add_texts_def example_services_def
        get_user_context_def similarity_search_def nearest_def candidates_def matches_def)

text \<open>
  C3. When the embedding service answers the query, retrieval returns the texts of the
  first \<open>min k n\<close> records of the \<open>n\<close> records of the scope arranged by increasing
  distance to the query: at most \<open>k\<close> texts, nearest first, all of them when fewer than
  \<open>k\<close> match, and the empty list, not an error, when none matches.
\<close>

theorem get_user_context_top_k:
  assumes "embed env query = Inr qv"
  shows "\<exists>hits rest.
           get_user_context env self uid query k = Inr (map (page_content \<circ> fst) hits)
         \<and> mset (hits @ rest) = mset (candidates [(''user_id'', Str uid)] (vectorstore self))
         \<and> length hits = min k (length (candidates [(''user_id'', Str uid)] (vectorstore self)))
         \<and> sorted (map (\<lambda>(d, v). distance env qv v) (hits @ rest))"
proof -
  let ?c = "candidates [(''user_id'', Str uid)] (vectorstore self)"
  let ?s = "nearest env qv ?c"
  have "sorted (map (\<lambda>(d, v). distance env qv v) (take k ?s @ drop k ?s))"
    by (simp add: nearest_def)
  moreover have "mset (take k ?s @ drop k ?s) = mset ?c"
    by (simp add: nearest_def)
  moreover have "length (take k ?s) = min k (length ?c)"
    by (simp add: nearest_def)
  moreover have "get_user_context env self uid query k = Inr (map (page_content \<circ> fst) (take k ?s))"
    using assms by (rule get_user_context_ok)
  ultimately show ?thesis by blast
qed

theorem get_user_context_top_k_witness:
  "embed example_services ''pointers'' = Inr [8]
   \<and> (\<exists>hits rest.
           get_user_context example_services \<lparr>vectorstore = example_store\<rparr> ''alice'' ''pointers'' 5
             = Inr (map (page_content \<circ> fst) hits)
         \<and> mset (hits @ rest)
             = mset (candidates [(''user_id'', Str ''alice'')] (vectorstore \<lparr>vectorstore = example_store\<rparr>))
         \<and> length hits
             = min 5 (length (candidates [(''user_id'', Str ''alice'')] (vectorstore \<lparr>vectorstore = example_store\<rparr>)))
         \<and> sorted (map (\<lambda>(d, v). distance example_services [8] v) (hits @ rest)))
   \<and> get_user_context example_services \<lparr>vectorstore = example_store\<rparr> ''alice'' ''pointers'' 5
        = Inr [''Q: What is a pointer?\<newline>A: An address.'',
               ''Q: What is malloc?\<newline>A: It allocates heap memory.'']
   \<and> get_user_context example_services \<lparr>vectorstore = example_store\<rparr> ''alice'' ''pointers'' 1
        = Inr [''Q: What is a pointer?\<newline>A: An address.'']
   \<and> get_user_context example_services \<lparr>vectorstore = example_store\<rparr> ''carol'' ''pointers'' 5
        = Inr []"
proof -
  have h: "embed example_services ''pointers'' = Inr [8]"
    by (simp add: example_services_def)
  have v: "get_user_context example_services \<lparr>vectorstore = example_store\<rparr> ''alice'' ''pointers'' 5
        = Inr [''Q: What is a pointer?\<newline>A: An address.'',
               ''Q: What is malloc?\<newline>A: It allocates heap memory.'']"
     "get_user_context example_services \<lparr>vectorstore = example_store\<rparr> ''alice'' ''pointers'' 1
        = Inr [''Q: What is a pointer?\<newline>A: An address.'']"
     "get_user_context example_services \<lparr>vectorstore = example_store\<rparr> ''carol'' ''pointers'' 5
        = Inr []"
    by (simp_all add: example_services_def example_store_def get_user_context_def
        similarity_search_def nearest_def candidates_def matches_def)
  from get_user_context_top_k [OF h, of "\<lparr>vectorstore = example_store\<rparr>" "''alice''" 5] h v
  show ?thesis by blast
qed

text \<open>
  C10. Lesson content is stored with the metadata \<open>type\<close> and \<open>lesson_id\<close> and no
  \<open>user_id\<close>, so adding a lesson changes the retrieval of no user, whatever the
  query and \<open>k\<close>: the lesson is never among the results of \<^verbatim>\<open>get_user_context\<close>.
\<close>

theorem lesson_content_never_retrieved:
  assumes "add_lesson_content env self lesson_id content = Inr self'"
  shows "get_user_context env self' uid query k = get_user_context env self uid query k
       \<and> (\<exists>v. vectorstore self' = vectorstore self @
             [(\<lparr>page_content = content,
                metadata = [''type'' \<mapsto> Str ''lesson'', ''lesson_id'' \<mapsto> Str lesson_id]\<rparr>, v)])
       \<and> [''type'' \<mapsto> Str ''lesson'', ''lesson_id'' \<mapsto> Str lesson_id] ''user_id'' = None"
proof -
  from assms obtain v where
    vs: "vectorstore self' = vectorstore self @
             [(\<lparr>page_content = content,
                metadata = [''type'' \<mapsto> Str ''lesson'', ''lesson_id'' \<mapsto> Str lesson_id]\<rparr>, v)]"
    by (cases "embed env content") (auto simp: add_lesson_content_def add_texts_def)
  have "candidates [(''user_id'', Str uid)] (vectorstore self')
          = candidates [(''user_id'', Str uid)] (vectorstore self)"
    unfolding vs by (simp add: candidates_def matches_def)
  then have "get_user_context env self' uid query k = get_user_context env self uid query k"
    by (cases "embed env query") (simp_all add: get_user_context_ok get_user_context_err)
  with vs show ?thesis by simp
qed

theorem lesson_content_never_retrieved_witness:
  "add_lesson_content example_services \<lparr>vectorstore = []\<rparr> ''L2'' ''pointers''
     = Inr \<lparr>vectorstore =
              [(\<lparr>page_content = ''pointers'',
                 metadata = [''type'' \<mapsto> Str ''lesson'', ''lesson_id'' \<mapsto> Str ''L2'']\<rparr>, [8])]\<rparr>
   \<and> get_user_context example_services
        \<lparr>vectorstore =
              [(\<lparr>page_content = ''pointers'',
                 metadata = [''type'' \<mapsto> Str ''lesson'', ''lesson_id'' \<mapsto> Str ''L2'']\<rparr>, [8])]\<rparr>
        ''alice'' ''pointers'' 5
      = get_user_context example_services \<lparr>vectorstore = []\<rparr> ''alice'' ''pointers'' 5
   \<and> get_user_context example_services \<lparr>vectorstore = []\<rparr> ''alice'' ''pointers'' 5 = Inr []"
proof -
  have h: "add_lesson_content example_services \<lparr>vectorstore = []\<rparr> ''L2'' ''pointers''
     = Inr \<lparr>vectorstore =
              [(\<lparr>page_content = ''pointers'',
                 metadata = [''type'' \<mapsto> Str ''lesson'', ''lesson_id'' \<mapsto> Str ''L2'']\<rparr>, [8])]\<rparr>"
    by (simp add: add_lesson_content_def add_texts_def example_services_def)
  have e: "get_user_context example_services \<lparr>vectorstore = []\<rparr> ''alice'' ''pointers'' 5 = Inr []"
    by (simp add: example_services_def get_user_context_def similarity_search_def
          nearest_def candidates_def)
  from lesson_content_never_retrieved [OF h, of "''alice''" "''pointers''" 5] h e
  show ?thesis by simp
qed

section \<open>Properties of the tutor session component\<close>

lemma generate_response_window:
  "generate_response env self uid q lvl = Inr (r, self') \<Longrightarrow>
   conversation_memory self' = conversation_memory self"
  by (auto simp: generate_response_def Let_def split: sum.splits)

lemma generate_response_succeeds:
  assumes e: "\<forall>t. \<exists>v. embed env t = Inr v" and l: "\<forall>p. \<exists>r. llm env p = Inr r"
  shows "\<exists>r agent. generate_response env self uid q lvl = Inr (r, agent)"
proof -
  from e obtain qv where qv: "embed env q = Inr qv" by blast
  define ctxt where "ctxt = map (page_content \<circ> fst)
      (take 5 (nearest env qv (candidates [(''user_id'', Str uid)] (vectorstore (memory_manager self)))))"
  have c: "get_user_context env (memory_manager self) uid q 5 = Inr ctxt"
    unfolding ctxt_def using qv by (rule get_user_context_ok)
  from l obtain r where r: "llm env (tutor_prompt_format (join ''\<newline>'' ctxt) lvl q
                      (buffer env (conversation_memory self))) = Inr r" by blast
  from e obtain v where v: "embed env (''Q: '' @ q @ ''\<newline>A: '' @ r) = Inr v" by blast
  show ?thesis
    using c r add_texts_one [OF v]
    by (simp add: generate_response_def add_user_interaction_def)
qed

text \<open>
  \<^verbatim>\<open>generate_response\<close> sends the completion service exactly the prompt of
  \<open>formatted_prompt\<close>, and the history in that prompt is the buffer of the agent's
  window.
\<close>

lemma generate_response_submits_prompt:
  "generate_response env self uid q lvl =
     (case formatted_prompt env self uid q lvl of
        Inl e \<Rightarrow> Inl e
      | Inr p \<Rightarrow>
          (case llm env p of
             Inl e \<Rightarrow> Inl e
           | Inr response \<Rightarrow>
               (case add_user_interaction env (memory_manager self) uid
                       (''Q: '' @ q @ ''\<newline>A: '' @ response)
                       [''type'' \<mapsto> Str ''qa'', ''level'' \<mapsto> Num lvl] of
                  Inl e \<Rightarrow> Inl e
                | Inr mm \<Rightarrow> Inr (response, self\<lparr>memory_manager := mm\<rparr>))))"
  by (simp add: generate_response_def formatted_prompt_def split: sum.splits)





text \<open>
  C4. After a successful \<^verbatim>\<open>generate_response\<close> the exchange has been appended to the
  conversation window. The code does not do this: the first question of a session is
  answered, and the window is as empty afterwards as it was before.
\<close>

theorem generate_response_leaves_window_empty:
  "(case generate_response example_services (TutorAgent_init \<lparr>vectorstore = []\<rparr>) ''u1''
           ''What is a pointer?'' 1 of
      Inl e \<Rightarrow> False
    | Inr (response, agent) \<Rightarrow>
        response = ''A pointer holds an address.''
      \<and> chat_memory (conversation_memory agent) = []
      \<and> window (conversation_memory agent) = [])"
  by (simp add: generate_response_def TutorAgent_init_def add_user_interaction_def add_texts_def
        example_services_def get_user_context_def similarity_search_def nearest_def
        candidates_def window_def)

text \<open>
  C7. A successful \<^verbatim>\<open>generate_response(user_id, question, user_level)\<close> returns the
  answer of the completion service and adds exactly one record to the store: its text
  is \<^verbatim>\<open>"Q: " + question + "\nA: " + response\<close>, its metadata are the user's identifier,
  \<open>type = qa\<close> and the user's level.
\<close>

theorem generate_response_records_exchange:
  assumes "generate_response env self uid q lvl = Inr (response, self')"
  shows "\<exists>ctxt v.
           get_user_context env (memory_manager self) uid q 5 = Inr ctxt
         \<and> llm env (tutor_prompt_format (join ''\<newline>'' ctxt) lvl q
                      (buffer env (conversation_memory self))) = Inr response
         \<and> embed env (''Q: '' @ q @ ''\<newline>A: '' @ response) = Inr v
         \<and> vectorstore (memory_manager self') = vectorstore (memory_manager self) @
             [(\<lparr>page_content = ''Q: '' @ q @ ''\<newline>A: '' @ response,
                metadata = [''user_id'' \<mapsto> Str uid, ''type'' \<mapsto> Str ''qa'', ''level'' \<mapsto> Num lvl]\<rparr>, v)]"
proof -
  from assms obtain ctxt mm where
    c: "get_user_context env (memory_manager self) uid q 5 = Inr ctxt" and
    l: "llm env (tutor_prompt_format (join ''\<newline>'' ctxt) lvl q
                      (buffer env (conversation_memory self))) = Inr response" and
    a: "add_user_interaction env (memory_manager self) uid (''Q: '' @ q @ ''\<newline>A: '' @ response)
          [''type'' \<mapsto> Str ''qa'', ''level'' \<mapsto> Num lvl] = Inr mm" and
    s: "self' = self\<lparr>memory_manager := mm\<rparr>"
    by (auto simp: generate_response_def Let_def split: sum.splits)
  from add_user_interaction_ok [OF a] obtain v where
    "embed env (''Q: '' @ q @ ''\<newline>A: '' @ response) = Inr v"
    "vectorstore mm = vectorstore (memory_manager self) @
       [(\<lparr>page_content = ''Q: '' @ q @ ''\<newline>A: '' @ response,
          metadata = [''user_id'' \<mapsto> Str uid] ++ [''type'' \<mapsto> Str ''qa'', ''level'' \<mapsto> Num lvl]\<rparr>, v)]"
    by blast
  with c l s show ?thesis by simp
qed

theorem generate_response_records_exchange_witness:
  "generate_response example_services (TutorAgent_init \<lparr>vectorstore = []\<rparr>) ''u1'' ''Why?'' 3
     = Inr (''A pointer holds an address.'',
            \<lparr>memory_manager = \<lparr>vectorstore =
               [(\<lparr>page_content = ''Q: Why?\<newline>A: A pointer holds an address.'',
                  metadata = [''user_id'' \<mapsto> Str ''u1'', ''type'' \<mapsto> Str ''qa'', ''level'' \<mapsto> Num 3]\<rparr>,
                 [38])]\<rparr>,
             conversation_memory = \<lparr>window_k = 10, chat_memory = []\<rparr>\<rparr>)
   \<and> (\<exists>ctxt v.
           get_user_context example_services (memory_manager (TutorAgent_init \<lparr>vectorstore = []\<rparr>))
             ''u1'' ''Why?'' 5 = Inr ctxt
         \<and> llm example_services (tutor_prompt_format (join ''\<newline>'' ctxt) 3 ''Why?''
               (buffer example_services (conversation_memory (TutorAgent_init \<lparr>vectorstore = []\<rparr>))))
             = Inr ''A pointer holds an address.''
         \<and> embed example_services (''Q: '' @ ''Why?'' @ ''\<newline>A: '' @ ''A pointer holds an address.'') = Inr v
         \<and> vectorstore (memory_manager
               \<lparr>memory_manager = \<lparr>vectorstore =
                  [(\<lparr>page_content = ''Q: Why?\<newline>A: A pointer holds an address.'',
                     metadata = [''user_id'' \<mapsto> Str ''u1'', ''type'' \<mapsto> Str ''qa'', ''level'' \<mapsto> Num 3]\<rparr>,
                    [38])]\<rparr>,
                conversation_memory = \<lparr>window_k = 10, chat_memory = []\<rparr>\<rparr>)
             = vectorstore (memory_manager (TutorAgent_init \<lparr>vectorstore = []\<rparr>)) @
             [(\<lparr>page_content = ''Q: '' @ ''Why?'' @ ''\<newline>A: '' @ ''A pointer holds an address.'',
                metadata = [''user_id'' \<mapsto> Str ''u1'', ''type'' \<mapsto> Str ''qa'', ''level'' \<mapsto> Num 3]\<rparr>, v)])"
proof -
  have h: "generate_response example_services (TutorAgent_init \<lparr>vectorstore = []\<rparr>) ''u1'' ''Why?'' 3
     = Inr (''A pointer holds an address.'',
            \<lparr>memory_manager = \<lparr>vectorstore =
               [(\<lparr>page_content = ''Q: Why?\<newline>A: A pointer holds an address.'',
                  metadata = [''user_id'' \<mapsto> Str ''u1'', ''type'' \<mapsto> Str ''qa'', ''level'' \<mapsto> Num 3]\<rparr>,
                 [38])]\<rparr>,
             conversation_memory = \<lparr>window_k = 10, chat_memory = []\<rparr>\<rparr>)"
    by (simp add: generate_response_def TutorAgent_init_def add_user_interaction_def add_texts_def
          example_services_def get_user_context_def similarity_search_def nearest_def
          candidates_def)
  from generate_response_records_exchange [OF h] h show ?thesis by blast
qed

section \<open>Properties of quiz generation\<close>

text \<open>
  C5. Parsing the well-formed block of the specification gives one question with four
  options, the correct answer 1 and the explanation. The code gives the empty list:
  \<^verbatim>\<open>_parse_quiz_response\<close> is a stub whose parsing is still a comment.
\<close>

theorem parse_quiz_response_well_formed_block:
  "parse_quiz_response
     ''Q: What is a pointer?\<newline>A) x\<newline>B) y\<newline>C) z\<newline>D) w\<newline>Correct: B\<newline>Explanation: ...\<newline>---'' = []
   \<and> length (parse_quiz_response
     ''Q: What is a pointer?\<newline>A) x\<newline>B) y\<newline>C) z\<newline>D) w\<newline>Correct: B\<newline>Explanation: ...\<newline>---'') \<noteq> 1"
  by (simp add: parse_quiz_response_def)

text \<open>
  C6. For a block of quiz text without a \<^verbatim>\<open>Correct:\<close> line the parser returns no
  question and raises nothing, and a quiz request whose completion is such a block is
  answered with the empty quiz, not with an error.
\<close>

theorem parse_quiz_response_missing_correct:
  assumes "\<not> has_correct_line response"
  shows "parse_quiz_response response = []
       \<and> (llm env (quiz_prompt topic (case query ''difficulty'' of None \<Rightarrow> 5 | Some d \<Rightarrow> d) 5)
             = Inr response
            \<longrightarrow> generate_quiz_endpoint env st topic query = Ok [])"
  by (simp add: parse_quiz_response_def generate_quiz_endpoint_def generate_quiz_def)

theorem parse_quiz_response_missing_correct_witness:
  "\<not> has_correct_line ''Q: What is a pointer?\<newline>A) x\<newline>B) y\<newline>C) z\<newline>D) w\<newline>Explanation: ...\<newline>---''
   \<and> parse_quiz_response ''Q: What is a pointer?\<newline>A) x\<newline>B) y\<newline>C) z\<newline>D) w\<newline>Explanation: ...\<newline>---'' = []
   \<and> llm (example_services\<lparr>llm := \<lambda>p. Inr ''Q: What is a pointer?\<newline>A) x\<newline>B) y\<newline>C) z\<newline>D) w\<newline>Explanation: ...\<newline>---''\<rparr>)
        (quiz_prompt ''pointers'' (case Map.empty ''difficulty'' of None \<Rightarrow> 5 | Some d \<Rightarrow> d) 5)
       = Inr ''Q: What is a pointer?\<newline>A) x\<newline>B) y\<newline>C) z\<newline>D) w\<newline>Explanation: ...\<newline>---''
   \<and> generate_quiz_endpoint
        (example_services\<lparr>llm := \<lambda>p. Inr ''Q: What is a pointer?\<newline>A) x\<newline>B) y\<newline>C) z\<newline>D) w\<newline>Explanation: ...\<newline>---''\<rparr>)
        (app_init []) ''pointers'' Map.empty = Ok []"
proof -
  have h: "\<not> has_correct_line ''Q: What is a pointer?\<newline>A) x\<newline>B) y\<newline>C) z\<newline>D) w\<newline>Explanation: ...\<newline>---''"
    by (simp add: has_correct_line_def)
  have l: "llm (example_services\<lparr>llm := \<lambda>p. Inr ''Q: What is a pointer?\<newline>A) x\<newline>B) y\<newline>C) z\<newline>D) w\<newline>Explanation: ...\<newline>---''\<rparr>)
        (quiz_prompt ''pointers'' (case Map.empty ''difficulty'' of None \<Rightarrow> 5 | Some d \<Rightarrow> d) 5)
       = Inr ''Q: What is a pointer?\<newline>A) x\<newline>B) y\<newline>C) z\<newline>D) w\<newline>Explanation: ...\<newline>---''"
    by simp
  from parse_quiz_response_missing_correct [OF h,
      of "example_services\<lparr>llm := \<lambda>p. Inr ''Q: What is a pointer?\<newline>A) x\<newline>B) y\<newline>C) z\<newline>D) w\<newline>Explanation: ...\<newline>---''\<rparr>"
         "''pointers''" Map.empty "app_init []"] h l
  show ?thesis by blast
qed

text \<open>
  C8. The quiz endpoint takes \<open>difficulty\<close> and \<open>num_questions\<close> from the query and
  asks the completion service for \<open>num_questions\<close> questions. The code asks for five
  whatever the caller sends: with \<open>num_questions = 3\<close> the prompt that reaches the
  completion service starts with "Generate 5", and the reply of the endpoint does not
  depend on \<open>num_questions\<close> at all.
\<close>

theorem quiz_endpoint_ignores_num_questions:
  "generate_quiz_endpoint echo_services (app_init []) ''pointers''
       [''difficulty'' \<mapsto> 5, ''num_questions'' \<mapsto> 3]
     = HTTPException 500 (quiz_prompt ''pointers'' 5 5)
   \<and> take 60 (quiz_prompt ''pointers'' 5 5)
       = ''Generate 5 multiple choice questions about pointers in C pro''
   \<and> generate_quiz_endpoint env st topic (query(''num_questions'' \<mapsto> n))
       = generate_quiz_endpoint env st topic query"
  by (simp add: generate_quiz_endpoint_def generate_quiz_def echo_services_def quiz_prompt_def
        str_int_def str_nat.simps digit_char_def)

section \<open>Properties of the API layer\<close>

text \<open>
  C9. A chat request of a user who is not in the user table is not answered with 404:
  it is served as \<^verbatim>\<open>generate_response\<close> with the level 1, and when the embedding and
  the completion service answer, the reply is a normal response body.
\<close>

theorem chat_unknown_user_defaults:
  assumes "users_db st (ChatMessage.user_id msg) = None"
  shows "chat env st msg =
           (case generate_response env (tutor_agent st) (ChatMessage.user_id msg) (message msg) 1 of
              Inr (response, agent) \<Rightarrow> (Ok response, st\<lparr>tutor_agent := agent\<rparr>)
            | Inl e \<Rightarrow> (HTTPException 500 (str_error e), st))
       \<and> fst (chat env st msg) \<noteq> HTTPException 404 detail
       \<and> ((\<forall>t. \<exists>v. embed env t = Inr v) \<and> (\<forall>p. \<exists>r. llm env p = Inr r)
            \<longrightarrow> (\<exists>r. fst (chat env st msg) = Ok r))"
proof (intro conjI impI)
  show eq: "chat env st msg =
           (case generate_response env (tutor_agent st) (ChatMessage.user_id msg) (message msg) 1 of
              Inr (response, agent) \<Rightarrow> (Ok response, st\<lparr>tutor_agent := agent\<rparr>)
            | Inl e \<Rightarrow> (HTTPException 500 (str_error e), st))"
    using assms by (simp add: chat_def)
  show "fst (chat env st msg) \<noteq> HTTPException 404 detail"
    unfolding eq by (simp split: sum.splits prod.splits)
  assume "(\<forall>t. \<exists>v. embed env t = Inr v) \<and> (\<forall>p. \<exists>r. llm env p = Inr r)"
  then obtain r agent where
    "generate_response env (tutor_agent st) (ChatMessage.user_id msg) (message msg) 1 = Inr (r, agent)"
    using generate_response_succeeds by blast
  then show "\<exists>r. fst (chat env st msg) = Ok r"
    unfolding eq by simp
qed

theorem chat_unknown_user_defaults_witness:
  "users_db (app_init [])
     (ChatMessage.user_id \<lparr>message = ''Explain pointers'', user_id = ''ghost'', context_opt = None\<rparr>) = None
   \<and> (\<forall>t. \<exists>v. embed example_services t = Inr v)
   \<and> (\<forall>p. \<exists>r. llm example_services p = Inr r)
   \<and> get_user (app_init []) ''ghost'' = HTTPException 404 ''User not found''
   \<and> fst (chat example_services (app_init [])
             \<lparr>message = ''Explain pointers'', user_id = ''ghost'', context_opt = None\<rparr>)
       = Ok ''A pointer holds an address.''
   \<and> map (\<lambda>(d, v). metadata d ''level'')
       (vectorstore (memory_manager (tutor_agent (snd (chat example_services (app_init [])
             \<lparr>message = ''Explain pointers'', user_id = ''ghost'', context_opt = None\<rparr>)))))
       = [Some (Num 1)]"
proof -
  have h: "users_db (app_init [])
     (ChatMessage.user_id \<lparr>message = ''Explain pointers'', user_id = ''ghost'', context_opt = None\<rparr>) = None"
    by (simp add: app_init_def)
  have s: "(\<forall>t. \<exists>v. embed example_services t = Inr v)" "(\<forall>p. \<exists>r. llm example_services p = Inr r)"
    by (simp_all add: example_services_def)
  have g: "get_user (app_init []) ''ghost'' = HTTPException 404 ''User not found''"
    by (simp add: get_user_def app_init_def)
  have c: "generate_response example_services (tutor_agent (app_init [])) ''ghost'' ''Explain pointers'' 1
     = Inr (''A pointer holds an address.'',
            \<lparr>memory_manager = \<lparr>vectorstore =
               [(\<lparr>page_content = ''Q: Explain pointers\<newline>A: A pointer holds an address.'',
                  metadata = [''user_id'' \<mapsto> Str ''ghost'', ''type'' \<mapsto> Str ''qa'', ''level'' \<mapsto> Num 1]\<rparr>,
                 [50])]\<rparr>,
             conversation_memory = \<lparr>window_k = 10, chat_memory = []\<rparr>\<rparr>)"
    by (simp add: generate_response_def app_init_def TutorAgent_init_def add_user_interaction_def
          add_texts_def example_services_def get_user_context_def similarity_search_def
          nearest_def candidates_def)
  from chat_unknown_user_defaults [OF h, of example_services] h s g c
  show ?thesis by simp
qed

end
